theory Spec2Isabelle
  imports Complex_Main
begin

section \<open>The p2pquake websocket client: event emitter and reconnecting client\<close>

text \<open>
  A shallow embedding of \<^verbatim>\<open>emitter/__init__.py\<close> (class \<^verbatim>\<open>EventEmitter\<close>) and of
  \<^verbatim>\<open>client.py\<close> (class \<^verbatim>\<open>Client\<close>). A coroutine of the source is a function from the
  state of the world to an outcome (the returned value, or the exception that left the
  coroutine) and the state of the world afterwards. The world is the attribute namespace
  of the client object together with a log of what the run did.
\<close>

subsection \<open>Exceptions\<close>

text \<open>
  The source distinguishes exceptions only through its \<^verbatim>\<open>except\<close> clauses:
  \<^verbatim>\<open>websockets.exceptions.ConnectionClosed\<close>, \<^verbatim>\<open>Exception\<close>, and whatever is neither
  (\<^verbatim>\<open>asyncio.CancelledError\<close>, \<^verbatim>\<open>KeyboardInterrupt\<close>: subclasses of \<^verbatim>\<open>BaseException\<close>
  only). The exceptions the client's own statements raise are named.
\<close>

datatype py_exception =
    ConnectionClosed
  | AttributeError
  | TypeError
  | KeyError
  | JSONDecodeError
  | OtherException string
  | BaseExceptionOnly string

fun is_Exception :: "py_exception \<Rightarrow> bool" where
  "is_Exception (BaseExceptionOnly _) = False"
| "is_Exception _ = True"

subsection \<open>JSON values and the discriminant\<close>

datatype pyfloat = Finite real | Infinity bool | NaN

datatype json =
    JNull
  | JBool bool
  | JInt int
  | JFloat pyfloat
  | JString string
  | JArray "json list"
  | JObject "(string \<times> json) list"

text \<open>
  \<^verbatim>\<open>data[key]\<close> for a string key: a dict raises \<^verbatim>\<open>KeyError\<close> when the key is missing,
  every other JSON value raises \<^verbatim>\<open>TypeError\<close>. An object is the list of the items of
  the dict (keys distinct).
\<close>

fun getitem :: "json \<Rightarrow> string \<Rightarrow> py_exception + json" where
  "getitem (JObject items) key =
     (case map_of items key of None \<Rightarrow> Inl KeyError | Some v \<Rightarrow> Inr v)"
| "getitem _ key = Inl TypeError"

text \<open>Python's \<^verbatim>\<open>value == k\<close> for an integer literal \<^verbatim>\<open>k\<close>.\<close>

fun eq_int :: "json \<Rightarrow> int \<Rightarrow> bool" where
  "eq_int (JInt i) k = (i = k)"
| "eq_int (JFloat (Finite r)) k = (r = of_int k)"
| "eq_int (JBool b) k = ((if b then 1 else 0) = k)"
| "eq_int _ k = False"

subsection \<open>Handlers, attribute values, the log\<close>

text \<open>
  Modelled from the spec: the decoded message (\<^verbatim>\<open>DecodedMessage\<close>), whose classes
  \<^verbatim>\<open>EarthquakeReports\<close> and \<^verbatim>\<open>EEW\<close> and whose base class \<^verbatim>\<open>BasicData\<close> are missing. It
  is opaque here: it carries the \<^verbatim>\<open>_id\<close> the client reads and the data it was built from.
\<close>

datatype payload = Payload (payload_id: string) (payload_data: json)

datatype arg = ArgText string | ArgData payload | ArgError py_exception

text \<open>
  A function object handed to \<^verbatim>\<open>on\<close>: its \<^verbatim>\<open>__name__\<close>, its identity, whether
  \<^verbatim>\<open>asyncio.iscoroutinefunction\<close> holds of it, and what calling and awaiting it with
  some arguments does: complete (\<open>None\<close>) or raise. Handlers do not touch the client.
\<close>

record handler =
  hname :: string
  hid :: nat
  iscoroutinefunction :: bool
  hrun :: "arg list \<Rightarrow> py_exception option"

text \<open>
  Modelled from the spec: \<^verbatim>\<open>ClientOptions\<close>, two booleans fixed at construction
  (\<^verbatim>\<open>types/clientOptions.py\<close> is missing). The fields are named as \<^verbatim>\<open>client.py\<close> reads them.
\<close>

record client_options =
  isDebug :: bool
  isSandBox :: bool

text \<open>
  The values an attribute of the client can hold. Instances of classes that are not
  part of the sources at hand (\<^verbatim>\<open>ClientOptions\<close>, the websocket connection,
  \<^verbatim>\<open>DataCacheManager\<close>) have Python's default truth value and are not callable.
\<close>

datatype pyval =
    PyNone
  | PyBool bool
  | PyDict "(string \<times> nat) list"
  | PyOptions client_options
  | PyWebsocket nat
  | PyCache "string \<Rightarrow> payload option"
  | PyFunction handler

fun truthy :: "pyval \<Rightarrow> bool" where
  "truthy PyNone = False"
| "truthy (PyBool b) = b"
| "truthy (PyDict items) = (items \<noteq> [])"
| "truthy _ = True"

text \<open>The text of every message the source prints, with the values it interpolates.\<close>

datatype log_line =
    AddingListener string
  | NoListeners string
  | LogConnecting string int
  | LogClosedNormally
  | LogClosedUnexpectedly
  | LogErrorOccurred py_exception
  | LogMaxRetries
  | LogWaiting real
  | LogConnected string
  | LogReceived json
  | LogJsonParsingError
  | LogException py_exception
  | LogErrorAt string
  | LogDisconnected string

text \<open>
  What a run leaves behind, in order. \<open>Print\<close> is a line on standard output and
  \<open>Call\<close> the invocation of a function object. \<open>Published\<close>, \<open>Connect\<close> and \<open>Sleep\<close>
  mark the calls of \<^verbatim>\<open>emit\<close>, \<^verbatim>\<open>websockets.connect\<close> and \<^verbatim>\<open>asyncio.sleep\<close>, which
  write nothing themselves.
\<close>

datatype event =
    Published string "arg list"
  | Call nat "arg list"
  | Print log_line
  | Connect string
  | Sleep real

text \<open>
  \<open>attrs\<close> is the namespace \<^verbatim>\<open>hasattr\<close>, \<^verbatim>\<open>getattr\<close> and \<^verbatim>\<open>setattr\<close> work on: the data
  attributes of the instance and of its class, and whatever \<^verbatim>\<open>on\<close> has bound. Bound
  methods and the attributes every Python object inherits are not represented; a call
  \<^verbatim>\<open>self.m(...)\<close> of the source is a call of the function modelling \<^verbatim>\<open>m\<close>.
  \<open>connects\<close> counts the connection attempts made so far.
\<close>

record world =
  attrs :: "string \<Rightarrow> pyval option"
  trace :: "event list"
  connects :: nat

subsection \<open>Coroutines as state transformers with exceptions\<close>

type_synonym 'a action = "world \<Rightarrow> (py_exception + 'a) \<times> world"

definition succeed :: "'a \<Rightarrow> 'a action" where
  "succeed x w = (Inr x, w)"

definition throw :: "py_exception \<Rightarrow> 'a action" where
  "throw e w = (Inl e, w)"

definition lift :: "py_exception + 'a \<Rightarrow> 'a action" where
  "lift r w = (r, w)"

definition bindA :: "'a action \<Rightarrow> ('a \<Rightarrow> 'b action) \<Rightarrow> 'b action" where
  "bindA m k w = (case m w of (Inl e, w') \<Rightarrow> (Inl e, w') | (Inr x, w') \<Rightarrow> k x w')"

definition thenA :: "unit action \<Rightarrow> 'b action \<Rightarrow> 'b action" where
  "thenA m k = bindA m (\<lambda>_. k)"

text \<open>\<^verbatim>\<open>try: m  except Exception as e: h(e)\<close>\<close>

definition try_except_Exception :: "'a action \<Rightarrow> (py_exception \<Rightarrow> 'a action) \<Rightarrow> 'a action" where
  "try_except_Exception m h w =
     (case m w of
        (Inl e, w') \<Rightarrow> if is_Exception e then h e w' else (Inl e, w')
      | (Inr x, w') \<Rightarrow> (Inr x, w'))"

definition record_event :: "event \<Rightarrow> unit action" where
  "record_event ev w = (Inr (), w\<lparr>trace := trace w @ [ev]\<rparr>)"

definition setattr :: "string \<Rightarrow> pyval \<Rightarrow> unit action" where
  "setattr name v w = (Inr (), w\<lparr>attrs := (attrs w)(name \<mapsto> v)\<rparr>)"

subsection \<open>EventEmitter\<close>

text \<open>\<^verbatim>\<open>EventEmitter.__init__\<close>: the only attribute is the (unused) \<^verbatim>\<open>_listeners\<close> dict.\<close>

definition EventEmitter_init :: world where
  "EventEmitter_init =
     \<lparr>attrs = Map.empty(''_listeners'' \<mapsto> PyDict []), trace = [], connects = 0\<rparr>"

text \<open>
  \<^verbatim>\<open>on(f)\<close>: a function that is not a coroutine function is refused with \<^verbatim>\<open>TypeError\<close>;
  otherwise a line is printed, \<^verbatim>\<open>f\<close> is bound as the attribute \<^verbatim>\<open>f.__name__\<close>, and
  \<^verbatim>\<open>f\<close> is returned.
\<close>

definition on :: "handler \<Rightarrow> handler action" where
  "on f =
     (if \<not> iscoroutinefunction f then throw TypeError
      else thenA (record_event (Print (AddingListener (hname f))))
             (thenA (setattr (hname f) (PyFunction f)) (succeed f)))"

text \<open>
  \<^verbatim>\<open>await listener(*args)\<close>: a function object is called and what it returns awaited (the
  result of a plain function is not awaitable); any other value is not callable.
\<close>

definition call_listener :: "pyval \<Rightarrow> arg list \<Rightarrow> unit action" where
  "call_listener listener args =
     (case listener of
        PyFunction f \<Rightarrow>
          thenA (record_event (Call (hid f) args))
            (case hrun f args of
               Some e \<Rightarrow> throw e
             | None \<Rightarrow> if iscoroutinefunction f then succeed () else throw TypeError)
      | _ \<Rightarrow> throw TypeError)"

text \<open>
  \<^verbatim>\<open>emit(event, *args)\<close>: nothing when the object has no attribute \<^verbatim>\<open>event\<close>; the
  attribute is called when it is true, and a line is printed when it is false.
\<close>

definition emit :: "string \<Rightarrow> arg list \<Rightarrow> unit action" where
  "emit event args =
     thenA (record_event (Published event args))
       (\<lambda>w. case attrs w event of
              None \<Rightarrow> succeed () w
            | Some listener \<Rightarrow>
                if truthy listener then call_listener listener args w
                else record_event (Print (NoListeners event)) w)"

subsection \<open>Client: construction and helpers\<close>

text \<open>
  \<^verbatim>\<open>Client.__init__\<close>, with the class attributes \<^verbatim>\<open>ws = None\<close> and \<^verbatim>\<open>isReady = False\<close>.
  \<^verbatim>\<open>cache\<close> is only annotated in the class body and its construction is commented out,
  so no attribute of that name exists.
\<close>

definition Client_init :: "bool \<Rightarrow> bool \<Rightarrow> world" where
  "Client_init dbg sandbox =
     EventEmitter_init
       \<lparr>attrs := (attrs EventEmitter_init)
          (''ws'' \<mapsto> PyNone,
           ''isReady'' \<mapsto> PyBool False,
           ''option'' \<mapsto> PyOptions \<lparr>isDebug = dbg, isSandBox = sandbox\<rparr>)\<rparr>"

text \<open>\<^verbatim>\<open>self.option\<close>, as far as reading \<^verbatim>\<open>.isDebug\<close> or \<^verbatim>\<open>.isSandBox\<close> from it goes.\<close>

definition get_option :: "client_options action" where
  "get_option w =
     (case attrs w ''option'' of
        Some (PyOptions opt) \<Rightarrow> (Inr opt, w)
      | _ \<Rightarrow> (Inl AttributeError, w))"

definition debug_message :: "log_line \<Rightarrow> unit action" where
  "debug_message message =
     bindA get_option (\<lambda>opt.
       if isDebug opt then record_event (Print message) else succeed ())"

definition get_ws_url :: "string action" where
  "get_ws_url =
     bindA get_option (\<lambda>opt.
       succeed (if \<not> isSandBox opt then ''wss://api.p2pquake.net/v2/ws''
                else ''wss://api-realtime-sandbox.p2pquake.net/v2/ws''))"

text \<open>
  Modelled from the spec: the cache collaborator's \<^verbatim>\<open>put(id, value)\<close>, which the source
  calls as \<^verbatim>\<open>self.cache.set(dataClass._id, dataClass)\<close>; \<^verbatim>\<open>utils/cache.py\<close> is missing.
  Python evaluates \<^verbatim>\<open>self.cache.set\<close> first: a missing attribute \<^verbatim>\<open>cache\<close>, or a value
  without a \<^verbatim>\<open>set\<close> method, raises \<^verbatim>\<open>AttributeError\<close>.
\<close>

definition cache_set :: "payload \<Rightarrow> unit action" where
  "cache_set dataClass w =
     (case attrs w ''cache'' of
        Some (PyCache store) \<Rightarrow>
          setattr ''cache'' (PyCache (store(payload_id dataClass \<mapsto> dataClass))) w
      | _ \<Rightarrow> (Inl AttributeError, w))"

subsection \<open>Client: the event handlers of the connection\<close>

definition on_ready :: "unit action" where
  "on_ready =
     thenA (setattr ''isReady'' (PyBool True))
       (bindA get_ws_url (\<lambda>url.
        thenA (debug_message (LogConnected url))
          (emit ''ready'' [])))"

definition on_error :: "py_exception \<Rightarrow> unit action" where
  "on_error error =
     bindA get_ws_url (\<lambda>url.
     thenA (debug_message (LogErrorAt url))
       (thenA (debug_message (LogException error))
          (emit ''error'' [ArgError error])))"

definition on_close :: "unit action" where
  "on_close =
     bindA get_ws_url (\<lambda>url.
     thenA (debug_message (LogDisconnected url))
       (thenA (setattr ''isReady'' (PyBool False))
          (emit ''close'' [])))"

text \<open>
  What the client calls and the sources at hand do not contain: the transport (what
  the k-th call of \<^verbatim>\<open>websockets.connect\<close> and the iteration over the connection do),
  \<^verbatim>\<open>json.loads\<close> (\<open>None\<close>: it raises), and the constructors of the three message classes.
\<close>

datatype script =
    ConnectRaises py_exception
  | Session "string list" "py_exception option"

record environment =
  transport :: "nat \<Rightarrow> script"
  json_loads :: "string \<Rightarrow> json option"
  EarthquakeReports :: "json \<Rightarrow> py_exception + payload"
  Tsunami :: "json \<Rightarrow> py_exception + payload"
  EEW :: "json \<Rightarrow> py_exception + payload"

text \<open>
  One statement \<^verbatim>\<open>if data['code'] == k: dataClass = C(data); await self.emit(name, dataClass);
  self.cache.set(dataClass._id, dataClass)\<close> of \<^verbatim>\<open>__on_message\<close>.
\<close>

definition dispatch ::
  "json \<Rightarrow> int \<Rightarrow> (json \<Rightarrow> py_exception + payload) \<Rightarrow> string \<Rightarrow> unit action" where
  "dispatch data k C name =
     bindA (lift (getitem data ''code'')) (\<lambda>code.
       if eq_int code k then
         bindA (lift (C data)) (\<lambda>dataClass.
         thenA (emit name [ArgData dataClass])
           (cache_set dataClass))
       else succeed ())"

text \<open>The \<^verbatim>\<open>try\<close> suite of \<^verbatim>\<open>__on_message\<close>.\<close>

definition on_message_try :: "environment \<Rightarrow> string \<Rightarrow> unit action" where
  "on_message_try env message =
     bindA (lift (case json_loads env message of
                    None \<Rightarrow> Inl JSONDecodeError | Some data \<Rightarrow> Inr data)) (\<lambda>data.
     bindA (lift (getitem data ''code'')) (\<lambda>code.
     thenA (debug_message (LogReceived code))
       (thenA (dispatch data 551 (EarthquakeReports env) ''earthquake'')
       (thenA (dispatch data 552 (Tsunami env) ''tsunami'')
              (dispatch data 556 (EEW env) ''eew'')))))"

definition on_message :: "environment \<Rightarrow> string \<Rightarrow> unit action" where
  "on_message env message =
     thenA (emit ''rawmessage'' [ArgText message])
       (try_except_Exception (on_message_try env message) (\<lambda>e.
          thenA (debug_message LogJsonParsingError)
            (debug_message (LogException e))))"

subsection \<open>Client: one connection, and the reconnect loop\<close>

text \<open>\<^verbatim>\<open>async for message in websocket: await self.__on_message(message)\<close>\<close>

fun receive :: "environment \<Rightarrow> string list \<Rightarrow> unit action" where
  "receive env [] = succeed ()"
| "receive env (message # rest) = thenA (on_message env message) (receive env rest)"

text \<open>
  The \<^verbatim>\<open>try\<close> suite of the loop, up to the \<^verbatim>\<open>break\<close>: connect, \<^verbatim>\<open>__on_ready\<close>, the
  messages, and after a normal end of the iteration \<^verbatim>\<open>__on_close\<close>.
\<close>

definition connection :: "environment \<Rightarrow> string \<Rightarrow> unit action" where
  "connection env uri w =
     (let w1 = w\<lparr>trace := trace w @ [Connect uri], connects := connects w + 1\<rparr> in
      case transport env (connects w) of
        ConnectRaises e \<Rightarrow> (Inl e, w1)
      | Session messages ending \<Rightarrow>
          thenA (setattr ''ws'' (PyWebsocket (connects w)))
            (thenA on_ready
            (thenA (receive env messages)
              (case ending of
                 Some e \<Rightarrow> throw e
               | None \<Rightarrow> thenA (debug_message LogClosedNormally) on_close))) w1)"

text \<open>
  The whole \<^verbatim>\<open>try\<close> statement. Which way it was left is the result: through the
  \<^verbatim>\<open>break\<close>, through \<^verbatim>\<open>except ConnectionClosed\<close>, or through \<^verbatim>\<open>except Exception\<close>. An
  exception that no clause catches, or that a clause raises, leaves the coroutine.
\<close>

datatype termination_reason = NormalClose | AbnormalClose | TransportError py_exception

definition session :: "environment \<Rightarrow> string \<Rightarrow> termination_reason action" where
  "session env uri w =
     (case connection env uri w of
        (Inr _, w') \<Rightarrow> (Inr NormalClose, w')
      | (Inl e, w') \<Rightarrow>
          if e = ConnectionClosed then
            thenA (debug_message LogClosedUnexpectedly)
              (thenA on_close (succeed AbnormalClose)) w'
          else if is_Exception e then
            thenA (debug_message (LogErrorOccurred e))
              (thenA (on_error e) (succeed (TransportError e))) w'
          else (Inl e, w'))"

text \<open>
  One turn of \<^verbatim>\<open>while True\<close>: whether the loop goes on, and the value of \<^verbatim>\<open>retries\<close>
  after it.
\<close>

datatype control = Stop int | Again int

definition sleep :: "real \<Rightarrow> unit action" where
  "sleep delay = record_event (Sleep delay)"

definition iteration ::
  "environment \<Rightarrow> int option \<Rightarrow> real \<Rightarrow> string \<Rightarrow> int \<Rightarrow> control action" where
  "iteration env max_retries retry_interval uri retries =
     thenA (debug_message (LogConnecting uri (retries + 1)))
       (bindA (session env uri) (\<lambda>reason.
          case reason of
            NormalClose \<Rightarrow> succeed (Stop retries)
          | _ \<Rightarrow>
              if max_retries \<noteq> None \<and> retries + 1 \<ge> the max_retries then
                thenA (debug_message LogMaxRetries) (succeed (Stop (retries + 1)))
              else
                thenA (debug_message (LogWaiting retry_interval))
                  (thenA (sleep retry_interval) (succeed (Again (retries + 1))))))"

text \<open>
  The loop of \<^verbatim>\<open>_start_async\<close>. It need not end (\<^verbatim>\<open>max_retries=None\<close> and a transport
  that never closes normally), so the result is optional; a result is the outcome of
  the coroutine, with the final value of \<^verbatim>\<open>retries\<close> where Python returns \<^verbatim>\<open>None\<close>.
\<close>

partial_function (option) start_loop ::
  "environment \<Rightarrow> int option \<Rightarrow> real \<Rightarrow> string \<Rightarrow> int \<Rightarrow> world
     \<Rightarrow> ((py_exception + int) \<times> world) option" where
  "start_loop env max_retries retry_interval uri retries w =
     (case iteration env max_retries retry_interval uri retries w of
        (Inl e, w') \<Rightarrow> Some (Inl e, w')
      | (Inr (Stop r), w') \<Rightarrow> Some (Inr r, w')
      | (Inr (Again r), w') \<Rightarrow> start_loop env max_retries retry_interval uri r w')"


section \<open>Observations and hypotheses\<close>

subsection \<open>What is read off a run\<close>

text \<open>The publications of a run: the calls of \<^verbatim>\<open>emit\<close>, in order.\<close>

fun is_publication :: "event \<Rightarrow> bool" where
  "is_publication (Published _ _) = True"
| "is_publication _ = False"

definition publications :: "world \<Rightarrow> event list" where
  "publications w = filter is_publication (trace w)"

text \<open>
  The events of the connection itself: the attempts to connect, the publications of
  \<^verbatim>\<open>ready\<close>, \<^verbatim>\<open>close\<close> and \<^verbatim>\<open>error\<close>, and the sleeps between attempts.
\<close>

fun is_lifecycle :: "event \<Rightarrow> bool" where
  "is_lifecycle (Published name _) = (name = ''ready'' \<or> name = ''close'' \<or> name = ''error'')"
| "is_lifecycle (Connect _) = True"
| "is_lifecycle (Sleep _) = True"
| "is_lifecycle _ = False"

definition lifecycle :: "world \<Rightarrow> event list" where
  "lifecycle w = filter is_lifecycle (trace w)"

fun is_attempt :: "event \<Rightarrow> bool" where
  "is_attempt (Connect _) = True"
| "is_attempt (Sleep _) = True"
| "is_attempt _ = False"

definition attempts :: "world \<Rightarrow> event list" where
  "attempts w = filter is_attempt (lifecycle w)"

fun published_as :: "string \<Rightarrow> event \<Rightarrow> bool" where
  "published_as name (Published n _) = (n = name)"
| "published_as name _ = False"

definition times_published :: "string \<Rightarrow> world \<Rightarrow> nat" where
  "times_published name w = length (filter (published_as name) (trace w))"

subsection \<open>Hypotheses on the client and on its environment\<close>

text \<open>
  \<open>option_intact\<close>: the attribute \<^verbatim>\<open>option\<close> still holds the options the constructor put
  there (\<^verbatim>\<open>on\<close> would replace it by a function of that name). \<open>quiet w name\<close>: every
  publication under \<open>name\<close> returns: nothing is bound to the name, or what is bound
  there returns when called. A client is well behaved when its options are intact and
  the seven events it publishes are quiet.
\<close>

definition option_intact :: "world \<Rightarrow> bool" where
  "option_intact w \<longleftrightarrow> (\<exists>opt. attrs w ''option'' = Some (PyOptions opt))"

definition quiet :: "world \<Rightarrow> string \<Rightarrow> bool" where
  "quiet w name \<longleftrightarrow> (\<forall>args. fst (emit name args w) = Inr ())"

definition client_events :: "string list" where
  "client_events =
     [''ready'', ''rawmessage'', ''earthquake'', ''tsunami'', ''eew'', ''error'', ''close'']"

definition well_behaved :: "world \<Rightarrow> bool" where
  "well_behaved w \<longleftrightarrow> option_intact w \<and> (\<forall>name \<in> set client_events. quiet w name)"

text \<open>No cache object is bound to the attribute \<^verbatim>\<open>cache\<close>.\<close>

definition no_cache :: "world \<Rightarrow> bool" where
  "no_cache w \<longleftrightarrow> (case attrs w ''cache'' of Some (PyCache store) \<Rightarrow> False | _ \<Rightarrow> True)"

text \<open>
  A constructor of a message class that fails raises a subclass of \<^verbatim>\<open>Exception\<close> (a
  \<^verbatim>\<open>KeyError\<close> for a missing field, as in \<^verbatim>\<open>Tsunami.__init__\<close>).
\<close>

definition constructors_raise_Exception :: "environment \<Rightarrow> bool" where
  "constructors_raise_Exception env \<longleftrightarrow>
     (\<forall>data e. EarthquakeReports env data = Inl e \<or> Tsunami env data = Inl e \<or>
        EEW env data = Inl e \<longrightarrow> is_Exception e)"

text \<open>The three statements of \<^verbatim>\<open>__on_message\<close>: code, event name, constructor.\<close>

definition known_kinds ::
  "environment \<Rightarrow> (int \<times> string \<times> (json \<Rightarrow> py_exception + payload)) list" where
  "known_kinds env =
     [(551, ''earthquake'', EarthquakeReports env),
      (552, ''tsunami'', Tsunami env),
      (556, ''eew'', EEW env)]"

subsection \<open>What the transport does to a session\<close>

text \<open>
  The exception the transport raises in a session, if any; the publication that follows
  a completed handshake; and, following the spec's \<^verbatim>\<open>TerminationReason\<close>, the reason
  the session ends with and the publication that goes with it.
\<close>

fun raised_by :: "script \<Rightarrow> py_exception option" where
  "raised_by (ConnectRaises e) = Some e"
| "raised_by (Session messages ending) = ending"

fun handshake :: "script \<Rightarrow> event list" where
  "handshake (ConnectRaises e) = []"
| "handshake (Session messages ending) = [Published ''ready'' []]"

definition session_reason :: "script \<Rightarrow> py_exception + termination_reason" where
  "session_reason s =
     (case raised_by s of
        None \<Rightarrow> Inr NormalClose
      | Some e \<Rightarrow>
          if e = ConnectionClosed then Inr AbnormalClose
          else if is_Exception e then Inr (TransportError e)
          else Inl e)"

definition closing :: "script \<Rightarrow> event list" where
  "closing s =
     (case session_reason s of
        Inr NormalClose \<Rightarrow> [Published ''close'' []]
      | Inr AbnormalClose \<Rightarrow> [Published ''close'' []]
      | Inr (TransportError e) \<Rightarrow> [Published ''error'' [ArgError e]]
      | Inl e \<Rightarrow> [])"

definition ready_after :: "script \<Rightarrow> pyval option \<Rightarrow> pyval option" where
  "ready_after s before =
     (case session_reason s of
        Inr NormalClose \<Rightarrow> Some (PyBool False)
      | Inr AbnormalClose \<Rightarrow> Some (PyBool False)
      | _ \<Rightarrow> (case s of ConnectRaises e \<Rightarrow> before
              | Session messages ending \<Rightarrow> Some (PyBool True)))"

definition goes_on :: "int option \<Rightarrow> int \<Rightarrow> script \<Rightarrow> bool" where
  "goes_on max_retries retries s \<longleftrightarrow>
     (case session_reason s of
        Inr NormalClose \<Rightarrow> False
      | Inl e \<Rightarrow> False
      | _ \<Rightarrow> \<not> (max_retries \<noteq> None \<and> retries + 1 \<ge> the max_retries))"


text \<open>The state right after \<^verbatim>\<open>websockets.connect\<close> returned and \<^verbatim>\<open>self.ws\<close> was set.\<close>

definition connected :: "string \<Rightarrow> world \<Rightarrow> world" where
  "connected uri w =
     w\<lparr>trace := trace w @ [Connect uri], connects := connects w + 1,
       attrs := (attrs w)(''ws'' \<mapsto> PyWebsocket (connects w))\<rparr>"

subsection \<open>Reasoning about actions\<close>

text \<open>
  An invariant of an action holds after it whenever it held before, whichever way the
  action ends. \<open>raises_only I E m\<close>: started where \<open>I\<close> holds, \<open>m\<close> raises nothing but
  exceptions in \<open>E\<close>. An invariant survives the handling of a message when it tolerates
  every event but those of the connection, and the write to the cache.
\<close>

definition invariant :: "(world \<Rightarrow> bool) \<Rightarrow> 'a action \<Rightarrow> bool" where
  "invariant I m \<longleftrightarrow> (\<forall>w. I w \<longrightarrow> I (snd (m w)))"

definition raises_only ::
  "(world \<Rightarrow> bool) \<Rightarrow> (py_exception \<Rightarrow> bool) \<Rightarrow> 'a action \<Rightarrow> bool" where
  "raises_only I E m \<longleftrightarrow> (\<forall>w e. I w \<longrightarrow> fst (m w) = Inl e \<longrightarrow> E e)"

definition never :: "py_exception \<Rightarrow> bool" where
  "never e = False"

definition message_frame :: "(world \<Rightarrow> bool) \<Rightarrow> bool" where
  "message_frame I \<longleftrightarrow>
     (\<forall>w ev. \<not> is_lifecycle ev \<longrightarrow> I w \<longrightarrow> I (w\<lparr>trace := trace w @ [ev]\<rparr>)) \<and>
     (\<forall>dataClass. invariant I (cache_set dataClass))"

subsection \<open>Concrete inputs\<close>

text \<open>
  A handler that returns and one that raises; the frames \<^verbatim>\<open>{"code": 551}\<close> and
  \<^verbatim>\<open>{"code": 999}\<close>; an environment whose \<^verbatim>\<open>json.loads\<close> knows these two frames, whose
  constructors succeed, and whose transport follows one script at every attempt; and
  a client with a handler for \<^verbatim>\<open>earthquake\<close>.
\<close>

definition returning :: "string \<Rightarrow> nat \<Rightarrow> handler" where
  "returning name i =
     \<lparr>hname = name, hid = i, iscoroutinefunction = True, hrun = (\<lambda>args. None)\<rparr>"

definition raising :: "string \<Rightarrow> nat \<Rightarrow> py_exception \<Rightarrow> handler" where
  "raising name i e =
     \<lparr>hname = name, hid = i, iscoroutinefunction = True, hrun = (\<lambda>args. Some e)\<rparr>"

definition frame_of_code :: "string \<Rightarrow> string" where
  "frame_of_code digits = ''{'' @ [CHR 0x22] @ ''code'' @ [CHR 0x22] @ '': '' @ digits @ ''}''"

definition loads_example :: "string \<Rightarrow> json option" where
  "loads_example text =
     (if text = frame_of_code ''551'' then Some (JObject [(''code'', JInt 551)])
      else if text = frame_of_code ''999'' then Some (JObject [(''code'', JInt 999)])
      else None)"

definition env_example :: "script \<Rightarrow> environment" where
  "env_example s =
     \<lparr>transport = (\<lambda>k. s), json_loads = loads_example,
       EarthquakeReports = (\<lambda>data. Inr (Payload ''a1'' data)),
       Tsunami = (\<lambda>data. Inr (Payload ''a2'' data)),
       EEW = (\<lambda>data. Inr (Payload ''a3'' data))\<rparr>"

definition client_example :: world where
  "client_example = snd (on (returning ''earthquake'' 1) (Client_init True False))"

definition client_with :: "handler \<Rightarrow> world" where
  "client_with h = snd (on h (Client_init False False))"

section \<open>Lemmas\<close>

subsection \<open>Sequencing\<close>

lemma bindA_eq:
  "bindA m k w = (case fst (m w) of Inl e \<Rightarrow> (Inl e, snd (m w)) | Inr x \<Rightarrow> k x (snd (m w)))"
  by (simp add: bindA_def split: prod.splits sum.splits)

lemma thenA_eq:
  "thenA m k w = (case fst (m w) of Inl e \<Rightarrow> (Inl e, snd (m w)) | Inr _ \<Rightarrow> k (snd (m w)))"
  by (simp add: thenA_def bindA_def split: prod.splits sum.splits)

lemma try_eq:
  "try_except_Exception m h w =
     (case fst (m w) of
        Inl e \<Rightarrow> if is_Exception e then h e (snd (m w)) else (Inl e, snd (m w))
      | Inr x \<Rightarrow> (Inr x, snd (m w)))"
  by (simp add: try_except_Exception_def split: prod.splits sum.splits)

lemma thenA_returns: "fst (m w) = Inr u \<Longrightarrow> thenA m k w = k (snd (m w))"
  by (simp add: thenA_eq)

lemma thenA_raises: "fst (m w) = Inl e \<Longrightarrow> thenA m k w = (Inl e, snd (m w))"
  by (simp add: thenA_eq)

lemma bindA_returns: "fst (m w) = Inr x \<Longrightarrow> bindA m k w = k x (snd (m w))"
  by (simp add: bindA_eq)

lemma bindA_raises: "fst (m w) = Inl e \<Longrightarrow> bindA m k w = (Inl e, snd (m w))"
  by (simp add: bindA_eq)

subsection \<open>Invariants of actions\<close>

lemma invariantD: "invariant I m \<Longrightarrow> I w \<Longrightarrow> I (snd (m w))"
  by (simp add: invariant_def)

lemma invariant_succeed: "invariant I (succeed x)"
  and invariant_throw: "invariant I (throw e)"
  and invariant_lift: "invariant I (lift r)"
  by (simp_all add: invariant_def succeed_def throw_def lift_def)

lemma invariant_bindA:
  "invariant I m \<Longrightarrow> (\<And>x. invariant I (k x)) \<Longrightarrow> invariant I (bindA m k)"
  by (auto simp: invariant_def bindA_eq split: sum.splits)

lemma invariant_thenA:
  "invariant I m \<Longrightarrow> invariant I k \<Longrightarrow> invariant I (thenA m k)"
  by (simp add: thenA_def invariant_bindA)

lemma invariant_try:
  "invariant I m \<Longrightarrow> (\<And>e. invariant I (h e)) \<Longrightarrow> invariant I (try_except_Exception m h)"
  by (auto simp: invariant_def try_eq split: sum.splits)

lemma invariant_if:
  "(b \<Longrightarrow> invariant I m) \<Longrightarrow> (\<not> b \<Longrightarrow> invariant I k) \<Longrightarrow> invariant I (if b then m else k)"
  by simp

lemma message_frameI:
  assumes "\<And>w ev. \<not> is_lifecycle ev \<Longrightarrow> I w \<Longrightarrow> I (w\<lparr>trace := trace w @ [ev]\<rparr>)"
    and "\<And>w v. I w \<Longrightarrow> I (w\<lparr>attrs := (attrs w)(''cache'' \<mapsto> v)\<rparr>)"
  shows "message_frame I"
  using assms
  by (auto simp: message_frame_def invariant_def cache_set_def setattr_def
      split: option.splits pyval.splits)

lemma invariant_record_event:
  "message_frame I \<Longrightarrow> \<not> is_lifecycle ev \<Longrightarrow> invariant I (record_event ev)"
  by (simp add: invariant_def message_frame_def record_event_def)

lemma invariant_get_option: "invariant I get_option"
  by (auto simp: invariant_def get_option_def split: option.splits pyval.splits)

lemma invariant_debug_message: "message_frame I \<Longrightarrow> invariant I (debug_message msg)"
  unfolding debug_message_def
  by (intro invariant_bindA invariant_get_option invariant_if invariant_record_event invariant_succeed) simp_all

lemma invariant_get_ws_url: "invariant I get_ws_url"
  unfolding get_ws_url_def
  by (intro invariant_bindA invariant_get_option invariant_succeed)

lemma invariant_call_listener: "message_frame I \<Longrightarrow> invariant I (call_listener v args)"
  unfolding call_listener_def
  by (auto split: pyval.splits option.splits
      intro!: invariant_thenA invariant_record_event invariant_throw invariant_succeed)

lemma invariant_emit:
  assumes "message_frame I" "name \<noteq> ''ready''" "name \<noteq> ''close''" "name \<noteq> ''error''"
  shows "invariant I (emit name args)"
proof -
  have "invariant I (\<lambda>w. case attrs w name of None \<Rightarrow> succeed () w
          | Some listener \<Rightarrow> if truthy listener then call_listener listener args w
              else record_event (Print (NoListeners name)) w)"
    using assms(1) invariantD [OF invariant_call_listener [OF assms(1)]]
      invariantD [OF invariant_record_event [OF assms(1)]]
    by (auto simp: invariant_def succeed_def split: option.splits)
  then show ?thesis
    unfolding emit_def using assms
    by (intro invariant_thenA invariant_record_event) simp_all
qed

lemma invariant_cache_set: "message_frame I \<Longrightarrow> invariant I (cache_set d)"
  by (simp add: message_frame_def)

lemma invariant_dispatch:
  assumes "message_frame I" "name \<noteq> ''ready''" "name \<noteq> ''close''" "name \<noteq> ''error''"
  shows "invariant I (dispatch data k C name)"
  unfolding dispatch_def using assms
  by (intro invariant_bindA invariant_lift invariant_if invariant_thenA invariant_emit
      invariant_cache_set invariant_succeed)

lemma invariant_on_message_try: "message_frame I \<Longrightarrow> invariant I (on_message_try env message)"
  unfolding on_message_try_def
  by (intro invariant_bindA invariant_lift invariant_thenA invariant_dispatch
      invariant_debug_message) simp_all

lemma invariant_on_message: "message_frame I \<Longrightarrow> invariant I (on_message env message)"
  unfolding on_message_def
  by (intro invariant_thenA invariant_emit invariant_on_message_try invariant_debug_message
      invariant_try) simp_all

lemma invariant_receive: "message_frame I \<Longrightarrow> invariant I (receive env messages)"
  by (induction messages) (simp_all add: invariant_succeed invariant_thenA invariant_on_message)

subsection \<open>What the handling of a message leaves alone\<close>

lemma emit_fst_attr:
  "attrs w' name = attrs w name \<Longrightarrow> fst (emit name args w') = fst (emit name args w)"
  by (auto simp: emit_def call_listener_def thenA_eq record_event_def succeed_def throw_def
      split: option.splits pyval.splits)

lemma quiet_attr: "attrs w' name = attrs w name \<Longrightarrow> quiet w' name = quiet w name"
  by (simp add: quiet_def emit_fst_attr [of w' name w])

lemma quiet_emit: "quiet w name \<Longrightarrow> attrs w' name = attrs w name \<Longrightarrow> fst (emit name args w') = Inr ()"
  by (simp add: quiet_def emit_fst_attr [of w' name w])

lemma frame_lifecycle: "message_frame (\<lambda>w. lifecycle w = v)"
  by (rule message_frameI) (simp_all add: lifecycle_def)

lemma frame_times_published:
  "name = ''ready'' \<or> name = ''close'' \<or> name = ''error'' \<Longrightarrow>
   message_frame (\<lambda>w. times_published name w = v)"
  by (rule message_frameI) (auto simp: times_published_def elim: is_lifecycle.elims)

lemma frame_attrs: "no_cache w0 \<Longrightarrow> message_frame (\<lambda>w. attrs w = attrs w0)"
  by (auto simp: message_frame_def invariant_def cache_set_def no_cache_def
      split: option.splits pyval.splits)

lemma frame_connects: "message_frame (\<lambda>w. connects w = c)"
  by (rule message_frameI) simp_all

lemma frame_attr: "name \<noteq> ''cache'' \<Longrightarrow> message_frame (\<lambda>w. attrs w name = v)"
  by (rule message_frameI) simp_all

lemma frame_option_intact: "message_frame option_intact"
  by (rule message_frameI) (simp_all add: option_intact_def)

lemma quiet_trace [simp]: "quiet (w\<lparr>trace := t\<rparr>) name = quiet w name"
  by (rule quiet_attr) simp

lemma quiet_other_attr [simp]:
  "name \<noteq> other \<Longrightarrow> quiet (w\<lparr>attrs := (attrs w)(other \<mapsto> v)\<rparr>) name = quiet w name"
  by (rule quiet_attr) simp

lemma frame_quiet: "name \<noteq> ''cache'' \<Longrightarrow> message_frame (\<lambda>w. quiet w name)"
  by (rule message_frameI) simp_all

lemma frame_well_behaved: "message_frame well_behaved"
  by (rule message_frameI) (simp_all add: well_behaved_def option_intact_def client_events_def)

subsection \<open>Which exceptions can leave an action\<close>

lemma raises_only_succeed: "raises_only I E (succeed x)"
  by (simp add: raises_only_def succeed_def)

lemma raises_only_throw: "E e \<Longrightarrow> raises_only I E (throw e)"
  by (simp add: raises_only_def throw_def)

lemma raises_only_lift: "(\<And>e. r = Inl e \<Longrightarrow> E e) \<Longrightarrow> raises_only I E (lift r)"
  by (simp add: raises_only_def lift_def)

lemma raises_only_bindA:
  "invariant I m \<Longrightarrow> raises_only I E m \<Longrightarrow> (\<And>x. raises_only I E (k x)) \<Longrightarrow>
   raises_only I E (bindA m k)"
  by (auto simp: raises_only_def invariant_def bindA_eq split: sum.splits)

lemma raises_only_thenA:
  "invariant I m \<Longrightarrow> raises_only I E m \<Longrightarrow> raises_only I E k \<Longrightarrow> raises_only I E (thenA m k)"
  by (simp add: thenA_def raises_only_bindA)

lemma raises_only_try:
  "invariant I m \<Longrightarrow> raises_only I is_Exception m \<Longrightarrow> (\<And>e. raises_only I E (h e)) \<Longrightarrow>
   raises_only I E (try_except_Exception m h)"
  by (auto simp: raises_only_def invariant_def try_eq split: sum.splits if_splits)

lemma raises_only_weaken:
  "raises_only I E m \<Longrightarrow> (\<And>e. E e \<Longrightarrow> E' e) \<Longrightarrow> raises_only I E' m"
  by (auto simp: raises_only_def)

lemma raises_only_if:
  "(b \<Longrightarrow> raises_only I E m) \<Longrightarrow> (\<not> b \<Longrightarrow> raises_only I E k) \<Longrightarrow>
   raises_only I E (if b then m else k)"
  by simp

lemma neverD: "raises_only I never m \<Longrightarrow> I w \<Longrightarrow> fst (m w) = Inr ()"
  by (cases "fst (m w)") (auto simp: raises_only_def never_def)

lemma never_get_option: "raises_only well_behaved never get_option"
  by (auto simp: raises_only_def well_behaved_def option_intact_def get_option_def)

lemma never_debug_message: "raises_only well_behaved never (debug_message msg)"
  unfolding debug_message_def
  by (intro raises_only_bindA invariant_get_option never_get_option raises_only_if)
     (simp_all add: raises_only_def record_event_def succeed_def)

lemma never_emit: "name \<in> set client_events \<Longrightarrow> raises_only well_behaved never (emit name args)"
  by (auto simp: raises_only_def well_behaved_def quiet_def)

lemma getitem_Exception: "getitem data key = Inl e \<Longrightarrow> is_Exception e"
  by (cases data) (auto split: option.splits)

lemma cache_set_Exception: "raises_only I is_Exception (cache_set d)"
  by (auto simp: raises_only_def cache_set_def setattr_def split: option.splits pyval.splits)

lemma dispatch_Exception:
  assumes "(\<And>e. C data = Inl e \<Longrightarrow> is_Exception e)" "name \<in> set client_events"
    "name \<noteq> ''ready''" "name \<noteq> ''close''" "name \<noteq> ''error''"
  shows "raises_only well_behaved is_Exception (dispatch data k C name)"
  unfolding dispatch_def using assms
  by (intro raises_only_bindA raises_only_lift raises_only_if raises_only_thenA
      raises_only_weaken [OF never_emit] cache_set_Exception raises_only_succeed
      invariant_lift invariant_emit frame_well_behaved)
     (simp_all add: getitem_Exception never_def)

lemma on_message_try_Exception:
  assumes "constructors_raise_Exception env"
  shows "raises_only well_behaved is_Exception (on_message_try env message)"
  unfolding on_message_try_def using assms
  by (intro raises_only_bindA raises_only_lift raises_only_thenA dispatch_Exception
      raises_only_weaken [OF never_debug_message]
      invariant_lift invariant_debug_message invariant_dispatch frame_well_behaved)
     (auto simp: getitem_Exception never_def constructors_raise_Exception_def client_events_def
        split: option.splits)

lemma never_on_message:
  assumes "constructors_raise_Exception env"
  shows "raises_only well_behaved never (on_message env message)"
  unfolding on_message_def
  by (intro raises_only_thenA raises_only_try never_emit never_debug_message
      on_message_try_Exception [OF assms] invariant_emit invariant_debug_message
      invariant_on_message_try frame_well_behaved)
     (simp_all add: client_events_def)

lemma never_receive:
  assumes "constructors_raise_Exception env"
  shows "raises_only well_behaved never (receive env messages)"
  by (induction messages)
     (simp_all add: raises_only_succeed raises_only_thenA never_on_message [OF assms]
        invariant_on_message frame_well_behaved)

lemma receive_keeps:
  shows receive_lifecycle: "lifecycle (snd (receive env messages w)) = lifecycle w"
    and receive_connects: "connects (snd (receive env messages w)) = connects w"
    and receive_attr: "name \<noteq> ''cache'' \<Longrightarrow> attrs (snd (receive env messages w)) name = attrs w name"
    and receive_well_behaved: "well_behaved w \<Longrightarrow> well_behaved (snd (receive env messages w))"
proof -
  show "lifecycle (snd (receive env messages w)) = lifecycle w"
    by (rule invariantD [OF invariant_receive [OF frame_lifecycle]]) simp
  show "connects (snd (receive env messages w)) = connects w"
    by (rule invariantD [OF invariant_receive [OF frame_connects]]) simp
  show "name \<noteq> ''cache'' \<Longrightarrow> attrs (snd (receive env messages w)) name = attrs w name"
    by (rule invariantD [OF invariant_receive [OF frame_attr]]) simp_all
  show "well_behaved w \<Longrightarrow> well_behaved (snd (receive env messages w))"
    by (rule invariantD [OF invariant_receive [OF frame_well_behaved]])
qed

subsection \<open>The effect of the connection handlers\<close>

lemma lifecycle_update [simp]:
  shows "lifecycle (w\<lparr>attrs := a\<rparr>) = lifecycle w"
    and "lifecycle (w\<lparr>connects := c\<rparr>) = lifecycle w"
    and "lifecycle (w\<lparr>trace := trace w @ evs\<rparr>) = lifecycle w @ filter is_lifecycle evs"
  by (simp_all add: lifecycle_def)

lemma publications_update [simp]:
  shows "publications (w\<lparr>attrs := a\<rparr>) = publications w"
    and "publications (w\<lparr>connects := c\<rparr>) = publications w"
    and "publications (w\<lparr>trace := trace w @ evs\<rparr>) = publications w @ filter is_publication evs"
  by (simp_all add: publications_def)

lemma get_ws_url_snd [simp]: "snd (get_ws_url w) = w"
  by (simp add: get_ws_url_def get_option_def bindA_eq succeed_def split: option.splits pyval.splits)

lemma get_ws_url_fst:
  "attrs w ''option'' = Some (PyOptions opt) \<Longrightarrow>
   fst (get_ws_url w) = Inr (if \<not> isSandBox opt then ''wss://api.p2pquake.net/v2/ws''
                              else ''wss://api-realtime-sandbox.p2pquake.net/v2/ws'')"
  by (simp add: get_ws_url_def get_option_def bindA_eq succeed_def)

lemma debug_message_fst:
  "attrs w ''option'' = Some (PyOptions opt) \<Longrightarrow> fst (debug_message msg w) = Inr ()"
  by (simp add: debug_message_def get_option_def bindA_eq succeed_def record_event_def)

lemma debug_message_keeps [simp]:
  shows "attrs (snd (debug_message msg w)) = attrs w"
    and "connects (snd (debug_message msg w)) = connects w"
    and "lifecycle (snd (debug_message msg w)) = lifecycle w"
    and "publications (snd (debug_message msg w)) = publications w"
  by (auto simp: debug_message_def get_option_def bindA_eq succeed_def record_event_def
      lifecycle_def publications_def split: option.splits pyval.splits)

lemma emit_snd:
  "\<exists>evs. snd (emit name args w) = w\<lparr>trace := trace w @ Published name args # evs\<rparr> \<and>
         (\<forall>ev \<in> set evs. \<not> is_lifecycle ev \<and> \<not> is_publication ev)"
  by (auto simp: emit_def call_listener_def thenA_def bindA_def record_event_def succeed_def
      throw_def split: option.splits pyval.splits)

lemma emit_keeps [simp]:
  shows "attrs (snd (emit name args w)) = attrs w"
    and "connects (snd (emit name args w)) = connects w"
    and "lifecycle (snd (emit name args w)) = lifecycle w @ filter is_lifecycle [Published name args]"
    and "publications (snd (emit name args w)) = publications w @ [Published name args]"
proof -
  obtain evs where e: "snd (emit name args w) = w\<lparr>trace := trace w @ Published name args # evs\<rparr>"
    "\<forall>ev \<in> set evs. \<not> is_lifecycle ev \<and> \<not> is_publication ev"
    using emit_snd by blast
  have "filter is_lifecycle evs = []" "filter is_publication evs = []"
    using e(2) by (simp_all add: filter_empty_conv)
  then show "attrs (snd (emit name args w)) = attrs w"
    "connects (snd (emit name args w)) = connects w"
    "lifecycle (snd (emit name args w)) = lifecycle w @ filter is_lifecycle [Published name args]"
    "publications (snd (emit name args w)) = publications w @ [Published name args]"
    by (simp_all add: e(1) lifecycle_def publications_def)
qed

lemma well_behaved_cong:
  "(\<And>name. name \<in> set (''option'' # client_events) \<Longrightarrow> attrs w' name = attrs w name) \<Longrightarrow>
   well_behaved w' = well_behaved w"
proof -
  assume a: "\<And>name. name \<in> set (''option'' # client_events) \<Longrightarrow> attrs w' name = attrs w name"
  have "\<And>name. name \<in> set client_events \<Longrightarrow> quiet w' name = quiet w name"
    by (rule quiet_attr) (simp add: a)
  moreover have "option_intact w' = option_intact w"
    by (simp add: option_intact_def a)
  ultimately show ?thesis
    by (simp add: well_behaved_def)
qed

lemma on_ready_run:
  assumes o: "option_intact w" and q: "quiet w ''ready''"
  shows "fst (on_ready w) = Inr ()"
    and "attrs (snd (on_ready w)) = (attrs w)(''isReady'' \<mapsto> PyBool True)"
    and "lifecycle (snd (on_ready w)) = lifecycle w @ [Published ''ready'' []]"
    and "connects (snd (on_ready w)) = connects w"
    and "publications (snd (on_ready w)) = publications w @ [Published ''ready'' []]"
proof -
  obtain opt where opt: "attrs w ''option'' = Some (PyOptions opt)"
    using o by (auto simp: option_intact_def)
  let ?w1 = "w\<lparr>attrs := (attrs w)(''isReady'' \<mapsto> PyBool True)\<rparr>"
  have o1: "attrs ?w1 ''option'' = Some (PyOptions opt)" using opt by simp
  have e: "\<And>msg. fst (emit ''ready'' [] (snd (debug_message msg ?w1))) = Inr ()"
    by (rule quiet_emit [OF q]) simp
  show "fst (on_ready w) = Inr ()"
    "attrs (snd (on_ready w)) = (attrs w)(''isReady'' \<mapsto> PyBool True)"
    "lifecycle (snd (on_ready w)) = lifecycle w @ [Published ''ready'' []]"
    "connects (snd (on_ready w)) = connects w"
    "publications (snd (on_ready w)) = publications w @ [Published ''ready'' []]"
    using e by (simp_all add: on_ready_def thenA_eq bindA_eq setattr_def get_ws_url_fst [OF o1]
        debug_message_fst [OF o1])
qed

lemma on_close_run:
  assumes o: "option_intact w" and q: "quiet w ''close''"
  shows "fst (on_close w) = Inr ()"
    and "attrs (snd (on_close w)) = (attrs w)(''isReady'' \<mapsto> PyBool False)"
    and "lifecycle (snd (on_close w)) = lifecycle w @ [Published ''close'' []]"
    and "connects (snd (on_close w)) = connects w"
    and "publications (snd (on_close w)) = publications w @ [Published ''close'' []]"
proof -
  obtain opt where opt: "attrs w ''option'' = Some (PyOptions opt)"
    using o by (auto simp: option_intact_def)
  have e: "\<And>msg. fst (emit ''close'' []
      ((snd (debug_message msg w))\<lparr>attrs := (attrs w)(''isReady'' \<mapsto> PyBool False)\<rparr>)) = Inr ()"
    by (rule quiet_emit [OF q]) simp
  show "fst (on_close w) = Inr ()"
    "attrs (snd (on_close w)) = (attrs w)(''isReady'' \<mapsto> PyBool False)"
    "lifecycle (snd (on_close w)) = lifecycle w @ [Published ''close'' []]"
    "connects (snd (on_close w)) = connects w"
    "publications (snd (on_close w)) = publications w @ [Published ''close'' []]"
    using e by (simp_all add: on_close_def thenA_eq bindA_eq setattr_def get_ws_url_fst [OF opt]
        debug_message_fst [OF opt])
qed

lemma on_error_run:
  assumes o: "option_intact w" and q: "quiet w ''error''"
  shows "fst (on_error error w) = Inr ()"
    and "attrs (snd (on_error error w)) = attrs w"
    and "lifecycle (snd (on_error error w)) = lifecycle w @ [Published ''error'' [ArgError error]]"
    and "connects (snd (on_error error w)) = connects w"
    and "publications (snd (on_error error w)) = publications w @ [Published ''error'' [ArgError error]]"
proof -
  obtain opt where opt: "attrs w ''option'' = Some (PyOptions opt)"
    using o by (auto simp: option_intact_def)
  have e: "\<And>m1 m2. fst (emit ''error'' [ArgError error]
      (snd (debug_message m2 (snd (debug_message m1 w))))) = Inr ()"
    by (rule quiet_emit [OF q]) simp
  have o2: "\<And>m1. attrs (snd (debug_message m1 w)) ''option'' = Some (PyOptions opt)"
    using opt by simp
  show "fst (on_error error w) = Inr ()"
    "attrs (snd (on_error error w)) = attrs w"
    "lifecycle (snd (on_error error w)) = lifecycle w @ [Published ''error'' [ArgError error]]"
    "connects (snd (on_error error w)) = connects w"
    "publications (snd (on_error error w)) = publications w @ [Published ''error'' [ArgError error]]"
    using e by (simp_all add: on_error_def thenA_eq bindA_eq get_ws_url_fst [OF opt]
        debug_message_fst [OF opt] debug_message_fst [OF o2])
qed

lemma well_behaved_option: "well_behaved w \<Longrightarrow> option_intact w"
  and well_behaved_quiet: "well_behaved w \<Longrightarrow> name \<in> set client_events \<Longrightarrow> quiet w name"
  by (simp_all add: well_behaved_def)

lemma on_ready_effect:
  assumes "well_behaved w"
  shows "fst (on_ready w) = Inr ()"
    and "attrs (snd (on_ready w)) = (attrs w)(''isReady'' \<mapsto> PyBool True)"
    and "lifecycle (snd (on_ready w)) = lifecycle w @ [Published ''ready'' []]"
    and "connects (snd (on_ready w)) = connects w"
  by (rule on_ready_run [OF well_behaved_option [OF assms] well_behaved_quiet [OF assms]],
      simp add: client_events_def)+

lemma on_close_effect:
  assumes "well_behaved w"
  shows "fst (on_close w) = Inr ()"
    and "attrs (snd (on_close w)) = (attrs w)(''isReady'' \<mapsto> PyBool False)"
    and "lifecycle (snd (on_close w)) = lifecycle w @ [Published ''close'' []]"
    and "connects (snd (on_close w)) = connects w"
  by (rule on_close_run [OF well_behaved_option [OF assms] well_behaved_quiet [OF assms]],
      simp add: client_events_def)+

lemma on_error_effect:
  assumes "well_behaved w"
  shows "fst (on_error error w) = Inr ()"
    and "attrs (snd (on_error error w)) = attrs w"
    and "lifecycle (snd (on_error error w)) = lifecycle w @ [Published ''error'' [ArgError error]]"
    and "connects (snd (on_error error w)) = connects w"
  by (rule on_error_run [OF well_behaved_option [OF assms] well_behaved_quiet [OF assms]],
      simp add: client_events_def)+

lemma well_behaved_debug [simp]: "well_behaved (snd (debug_message msg w)) = well_behaved w"
  by (rule well_behaved_cong) simp

lemma well_behaved_fst_debug: "well_behaved w \<Longrightarrow> fst (debug_message msg w) = Inr ()"
  by (auto simp: well_behaved_def option_intact_def debug_message_fst)

lemma well_behaved_on_ready: "well_behaved w \<Longrightarrow> well_behaved (snd (on_ready w))"
  by (subst well_behaved_cong [of _ w]) (auto simp: on_ready_effect client_events_def)

lemma well_behaved_on_close: "well_behaved w \<Longrightarrow> well_behaved (snd (on_close w))"
  by (subst well_behaved_cong [of _ w]) (auto simp: on_close_effect client_events_def)

lemma well_behaved_on_error: "well_behaved w \<Longrightarrow> well_behaved (snd (on_error e w))"
  by (subst well_behaved_cong [of _ w]) (auto simp: on_error_effect client_events_def)

subsection \<open>One connection\<close>

lemma connection_refused:
  "transport env (connects w) = ConnectRaises e \<Longrightarrow>
   connection env uri w = (Inl e, w\<lparr>trace := trace w @ [Connect uri], connects := connects w + 1\<rparr>)"
  by (simp add: connection_def)

lemma connection_unfold:
  "transport env (connects w) = Session messages ending \<Longrightarrow>
   connection env uri w =
     thenA on_ready (thenA (receive env messages)
       (case ending of Some e \<Rightarrow> throw e
        | None \<Rightarrow> thenA (debug_message LogClosedNormally) on_close)) (connected uri w)"
  by (simp add: connection_def Let_def thenA_eq [of "setattr _ _"] setattr_def connected_def)

lemma connection_established:
  assumes wb: "well_behaved w" and env: "constructors_raise_Exception env"
    and script: "transport env (connects w) = Session messages ending"
  shows "fst (connection env uri w) = (case ending of None \<Rightarrow> Inr () | Some e \<Rightarrow> Inl e)"
    and "lifecycle (snd (connection env uri w)) =
           lifecycle w @ Connect uri # Published ''ready'' [] #
             (case ending of None \<Rightarrow> [Published ''close'' []] | Some e \<Rightarrow> [])"
    and "attrs (snd (connection env uri w)) ''isReady'' = Some (PyBool (ending \<noteq> None))"
    and "connects (snd (connection env uri w)) = connects w + 1"
    and "well_behaved (snd (connection env uri w))"
    and "attrs (snd (connection env uri w)) ''option'' = attrs w ''option''"
proof -
  define w1 where "w1 = connected uri w"
  define w2 where "w2 = snd (on_ready w1)"
  define w3 where "w3 = snd (receive env messages w2)"
  have wb1: "well_behaved w1"
    using wb by (subst well_behaved_cong [of _ w]) (auto simp: w1_def connected_def client_events_def)
  have r2: "fst (on_ready w1) = Inr ()" and wb2: "well_behaved w2"
    and l2: "lifecycle w2 = lifecycle w @ [Connect uri, Published ''ready'' []]"
    and a2: "attrs w2 ''isReady'' = Some (PyBool True)" and c2: "connects w2 = connects w + 1"
    and o2: "attrs w2 ''option'' = attrs w ''option''"
    using on_ready_effect [OF wb1] well_behaved_on_ready [OF wb1]
    by (simp_all add: w2_def w1_def connected_def)
  have r3: "fst (receive env messages w2) = Inr ()"
    by (rule neverD [OF never_receive [OF env] wb2])
  have wb3: "well_behaved w3" and l3: "lifecycle w3 = lifecycle w2"
    and a3: "attrs w3 ''isReady'' = attrs w2 ''isReady''" and c3: "connects w3 = connects w2"
    and o3: "attrs w3 ''option'' = attrs w2 ''option''"
    by (simp_all add: w3_def receive_keeps wb2)
  have step: "connection env uri w =
    (case ending of Some e \<Rightarrow> throw e | None \<Rightarrow> thenA (debug_message LogClosedNormally) on_close) w3"
    unfolding connection_unfold [OF script] w1_def [symmetric]
    by (simp only: thenA_returns [of on_ready w1, OF r2] w2_def [symmetric]
        thenA_returns [of "receive env messages" w2, OF r3] w3_def [symmetric])
  show "fst (connection env uri w) = (case ending of None \<Rightarrow> Inr () | Some e \<Rightarrow> Inl e)"
    "lifecycle (snd (connection env uri w)) =
           lifecycle w @ Connect uri # Published ''ready'' [] #
             (case ending of None \<Rightarrow> [Published ''close'' []] | Some e \<Rightarrow> [])"
    "attrs (snd (connection env uri w)) ''isReady'' = Some (PyBool (ending \<noteq> None))"
    "connects (snd (connection env uri w)) = connects w + 1"
    "well_behaved (snd (connection env uri w))"
    "attrs (snd (connection env uri w)) ''option'' = attrs w ''option''"
    using wb3 l3 l2 a3 a2 c3 c2 o3 o2
    by (auto simp: step throw_def thenA_eq [of "debug_message _"] well_behaved_fst_debug
        on_close_effect well_behaved_on_close split: option.splits)
qed

lemma connection_effect:
  assumes wb: "well_behaved w" and env: "constructors_raise_Exception env"
  shows "fst (connection env uri w) =
           (case raised_by (transport env (connects w)) of None \<Rightarrow> Inr () | Some e \<Rightarrow> Inl e) \<and>
         lifecycle (snd (connection env uri w)) =
           lifecycle w @ Connect uri # handshake (transport env (connects w)) @
             (if raised_by (transport env (connects w)) = None then [Published ''close'' []] else []) \<and>
         connects (snd (connection env uri w)) = connects w + 1 \<and>
         well_behaved (snd (connection env uri w)) \<and>
         attrs (snd (connection env uri w)) ''option'' = attrs w ''option'' \<and>
         attrs (snd (connection env uri w)) ''isReady'' =
           (case transport env (connects w) of
              ConnectRaises e \<Rightarrow> attrs w ''isReady''
            | Session messages ending \<Rightarrow> Some (PyBool (ending \<noteq> None)))"
proof (cases "transport env (connects w)")
  case (ConnectRaises e)
  have "well_behaved (w\<lparr>trace := trace w @ [Connect uri], connects := Suc (connects w)\<rparr>)"
    using wb by (subst well_behaved_cong [of _ w]) simp_all
  then show ?thesis
    by (simp add: connection_refused [OF ConnectRaises] ConnectRaises)
next
  case (Session messages ending)
  show ?thesis
    using connection_established [OF wb env Session, of uri]
    by (auto simp: Session split: option.splits)
qed

lemma session_eq:
  "session env uri w =
     (case fst (connection env uri w) of
        Inr _ \<Rightarrow> (Inr NormalClose, snd (connection env uri w))
      | Inl e \<Rightarrow>
          if e = ConnectionClosed then
            thenA (debug_message LogClosedUnexpectedly)
              (thenA on_close (succeed AbnormalClose)) (snd (connection env uri w))
          else if is_Exception e then
            thenA (debug_message (LogErrorOccurred e))
              (thenA (on_error e) (succeed (TransportError e))) (snd (connection env uri w))
          else (Inl e, snd (connection env uri w)))"
  by (simp add: session_def split: prod.splits sum.splits)

lemma session_effect:
  assumes wb: "well_behaved w" and env: "constructors_raise_Exception env"
  shows "fst (session env uri w) = session_reason (transport env (connects w)) \<and>
         lifecycle (snd (session env uri w)) =
           lifecycle w @ Connect uri # handshake (transport env (connects w)) @
             closing (transport env (connects w)) \<and>
         connects (snd (session env uri w)) = connects w + 1 \<and>
         well_behaved (snd (session env uri w)) \<and>
         attrs (snd (session env uri w)) ''option'' = attrs w ''option'' \<and>
         attrs (snd (session env uri w)) ''isReady'' =
           ready_after (transport env (connects w)) (attrs w ''isReady'')"
proof -
  let ?s = "transport env (connects w)"
  let ?c = "connection env uri w"
  note c = connection_effect [OF wb env, of uri]
  have wbc: "well_behaved (snd ?c)" using c by simp
  have d: "\<And>msg. fst (debug_message msg (snd ?c)) = Inr ()"
    by (rule well_behaved_fst_debug [OF wbc])
  have wbd: "\<And>msg. well_behaved (snd (debug_message msg (snd ?c)))"
    using wbc by simp
  show ?thesis
  proof (cases "raised_by ?s")
    case None
    then show ?thesis
      using c by (cases ?s) (simp_all add: session_eq session_reason_def closing_def ready_after_def)
  next
    case (Some e)
    then show ?thesis
      using c d wbd
      by (cases ?s)
         (simp_all add: session_eq session_reason_def closing_def ready_after_def thenA_eq
          succeed_def on_close_effect on_error_effect well_behaved_on_close
          well_behaved_on_error)
  qed
qed

subsection \<open>The reconnect loop\<close>

lemma iteration_effect:
  assumes wb: "well_behaved w" and env: "constructors_raise_Exception env"
  shows "fst (iteration env max_retries retry_interval uri retries w) =
           (case session_reason (transport env (connects w)) of
              Inl e \<Rightarrow> Inl e
            | Inr NormalClose \<Rightarrow> Inr (Stop retries)
            | Inr _ \<Rightarrow>
                if max_retries \<noteq> None \<and> retries + 1 \<ge> the max_retries
                then Inr (Stop (retries + 1)) else Inr (Again (retries + 1))) \<and>
         lifecycle (snd (iteration env max_retries retry_interval uri retries w)) =
           lifecycle w @ Connect uri # handshake (transport env (connects w)) @
             closing (transport env (connects w)) @
             (if goes_on max_retries retries (transport env (connects w))
              then [Sleep retry_interval] else []) \<and>
         connects (snd (iteration env max_retries retry_interval uri retries w)) = connects w + 1 \<and>
         well_behaved (snd (iteration env max_retries retry_interval uri retries w)) \<and>
         attrs (snd (iteration env max_retries retry_interval uri retries w)) ''option'' =
           attrs w ''option'' \<and>
         attrs (snd (iteration env max_retries retry_interval uri retries w)) ''isReady'' =
           ready_after (transport env (connects w)) (attrs w ''isReady'')"
proof -
  let ?w1 = "snd (debug_message (LogConnecting uri (retries + 1)) w)"
  let ?s = "session env uri ?w1"
  have wb1: "well_behaved ?w1" using wb by simp
  note s = session_effect [OF wb1 env, of uri, simplified]
  have wb2: "well_behaved (snd ?s)" using s by simp
  have d: "\<And>msg. fst (debug_message msg (snd ?s)) = Inr ()"
    by (rule well_behaved_fst_debug [OF wb2])
  have wbd: "\<And>msg. well_behaved (snd (debug_message msg (snd ?s)))"
    using wb2 by simp
  have wbs: "\<And>msg ev. well_behaved ((snd (debug_message msg (snd ?s)))\<lparr>trace := ev\<rparr>)"
    using wb2 by (subst well_behaved_cong [of _ "snd ?s"]) simp_all
  show ?thesis
    using s d wbd wbs well_behaved_fst_debug [OF wb]
    by (cases "session_reason (transport env (connects w))")
       (simp_all add: iteration_def thenA_eq bindA_eq succeed_def sleep_def record_event_def
          goes_on_def split: termination_reason.splits)
qed

lemma attempts_handshake [simp]: "filter is_attempt (handshake s) = []"
  by (cases s) simp_all

lemma attempts_closing [simp]: "filter is_attempt (closing s) = []"
  by (simp add: closing_def split: sum.splits termination_reason.splits)



lemma start_loop_eq:
  "start_loop env max_retries retry_interval uri retries w =
     (case fst (iteration env max_retries retry_interval uri retries w) of
        Inl e \<Rightarrow> Some (Inl e, snd (iteration env max_retries retry_interval uri retries w))
      | Inr (Stop r) \<Rightarrow> Some (Inr r, snd (iteration env max_retries retry_interval uri retries w))
      | Inr (Again r) \<Rightarrow>
          start_loop env max_retries retry_interval uri r
            (snd (iteration env max_retries retry_interval uri retries w)))"
  by (subst start_loop.simps) (simp split: prod.splits sum.splits control.splits)


subsection \<open>The publications of a message\<close>

lemma eq_int_inj: "eq_int c k \<Longrightarrow> eq_int c k' \<Longrightarrow> k = k'"
  by (induction c k rule: eq_int.induct) (auto split: if_splits)

lemma cache_set_publications [simp]: "publications (snd (cache_set d w)) = publications w"
  by (auto simp: cache_set_def publications_def setattr_def split: option.splits pyval.splits)

lemma dispatch_publications:
  "publications (snd (dispatch data k C name w)) =
     publications w @
       (case getitem data ''code'' of
          Inl e \<Rightarrow> []
        | Inr c \<Rightarrow>
            if eq_int c k
            then (case C data of Inl e \<Rightarrow> [] | Inr p \<Rightarrow> [Published name [ArgData p]])
            else [])"
  by (auto simp: dispatch_def bindA_eq thenA_eq lift_def succeed_def split: sum.splits)

lemma dispatch_skip:
  "getitem data ''code'' = Inr c \<Longrightarrow> \<not> eq_int c k \<Longrightarrow> dispatch data k C name w = (Inr (), w)"
  by (simp add: dispatch_def bindA_eq lift_def succeed_def)

lemma three_dispatches:
  assumes c: "getitem data ''code'' = Inr c"
  shows "publications (snd (thenA (dispatch data 551 C1 n1)
           (thenA (dispatch data 552 C2 n2) (dispatch data 556 C3 n3)) w)) =
         publications w @
           (if eq_int c 551 then (case C1 data of Inl e \<Rightarrow> [] | Inr p \<Rightarrow> [Published n1 [ArgData p]])
            else if eq_int c 552 then (case C2 data of Inl e \<Rightarrow> [] | Inr p \<Rightarrow> [Published n2 [ArgData p]])
            else if eq_int c 556 then (case C3 data of Inl e \<Rightarrow> [] | Inr p \<Rightarrow> [Published n3 [ArgData p]])
            else [])"
proof -
  consider "eq_int c 551" | "\<not> eq_int c 551" "eq_int c 552" | "\<not> eq_int c 551" "\<not> eq_int c 552"
    by blast
  then show ?thesis
  proof cases
    case 1
    then have n: "\<not> eq_int c 552" "\<not> eq_int c 556"
      using eq_int_inj by fastforce+
    show ?thesis
      using c 1 n
      by (simp add: thenA_eq dispatch_skip dispatch_publications split: sum.splits)
  next
    case 2
    then have n: "\<not> eq_int c 556"
      using eq_int_inj by fastforce
    show ?thesis
      using c 2 n
      by (simp add: thenA_eq dispatch_skip dispatch_publications split: sum.splits)
  next
    case 3
    then show ?thesis
      using c
      by (simp add: thenA_eq dispatch_skip dispatch_publications split: sum.splits)
  qed
qed

text \<open>The typed publications of a frame, as the three statements decide them.\<close>

lemma on_message_try_publications:
  "publications (snd (on_message_try env message w)) =
     publications w @
       (case json_loads env message of
          None \<Rightarrow> []
        | Some data \<Rightarrow>
            (case getitem data ''code'' of
               Inl e \<Rightarrow> []
             | Inr c \<Rightarrow>
                 if fst (debug_message (LogReceived c) w) \<noteq> Inr () then []
                 else if eq_int c 551 then
                   (case EarthquakeReports env data of
                      Inl e \<Rightarrow> [] | Inr p \<Rightarrow> [Published ''earthquake'' [ArgData p]])
                 else if eq_int c 552 then
                   (case Tsunami env data of
                      Inl e \<Rightarrow> [] | Inr p \<Rightarrow> [Published ''tsunami'' [ArgData p]])
                 else if eq_int c 556 then
                   (case EEW env data of
                      Inl e \<Rightarrow> [] | Inr p \<Rightarrow> [Published ''eew'' [ArgData p]])
                 else []))"
proof (cases "json_loads env message")
  case None
  then show ?thesis by (simp add: on_message_try_def bindA_eq lift_def)
next
  case (Some data)
  show ?thesis
  proof (cases "getitem data ''code''")
    case (Inl e)
    with Some show ?thesis by (simp add: on_message_try_def bindA_eq lift_def)
  next
    case (Inr c)
    show ?thesis
    proof (cases "fst (debug_message (LogReceived c) w)")
      case (Inl e)
      with Some Inr show ?thesis
        by (simp add: on_message_try_def bindA_eq lift_def
            thenA_eq [of "debug_message (LogReceived c)"])
    next
      case u: (Inr u)
      show ?thesis
        using Some Inr u three_dispatches [OF Inr, of "EarthquakeReports env" "''earthquake''"
            "Tsunami env" "''tsunami''" "EEW env" "''eew''" "snd (debug_message (LogReceived c) w)"]
        by (simp add: on_message_try_def bindA_eq lift_def
            thenA_eq [of "debug_message (LogReceived c)"])
    qed
  qed
qed

lemma on_message_publications:
  "publications (snd (on_message env message w)) =
     (if fst (emit ''rawmessage'' [ArgText message] w) = Inr ()
      then publications (snd (on_message_try env message
             (snd (emit ''rawmessage'' [ArgText message] w))))
      else publications w @ [Published ''rawmessage'' [ArgText message]])"
  by (cases "fst (emit ''rawmessage'' [ArgText message] w)")
     (simp_all add: on_message_def thenA_eq [of "emit ''rawmessage'' [ArgText message]"]
        thenA_eq [of "debug_message LogJsonParsingError"] try_eq split: sum.splits)

lemma on_message_fst:
  assumes "option_intact w"
  shows "fst (on_message env message w) =
     (case fst (emit ''rawmessage'' [ArgText message] w) of
        Inl e \<Rightarrow> Inl e
      | Inr u \<Rightarrow>
          (case fst (on_message_try env message (snd (emit ''rawmessage'' [ArgText message] w))) of
             Inl e \<Rightarrow> if is_Exception e then Inr () else Inl e
           | Inr u \<Rightarrow> Inr ()))"
proof -
  let ?w1 = "snd (emit ''rawmessage'' [ArgText message] w)"
  let ?w2 = "snd (on_message_try env message ?w1)"
  obtain opt where "attrs w ''option'' = Some (PyOptions opt)"
    using assms by (auto simp: option_intact_def)
  then have "attrs ?w1 ''option'' = Some (PyOptions opt)" by simp
  then have o: "attrs ?w2 ''option'' = Some (PyOptions opt)"
    by (rule invariantD [OF invariant_on_message_try [OF frame_attr], rotated]) simp
  have o': "\<And>msg. attrs (snd (debug_message msg ?w2)) ''option'' = Some (PyOptions opt)"
    using o by simp
  show ?thesis
    by (simp add: on_message_def thenA_eq [of "emit ''rawmessage'' [ArgText message]"]
        thenA_eq [of "debug_message LogJsonParsingError"] try_eq debug_message_fst [OF o]
        debug_message_fst [OF o'] split: sum.splits)
qed


lemma on_message_try_malformed:
  "json_loads env message = None \<Longrightarrow> on_message_try env message w = (Inl JSONDecodeError, w)"
  by (simp add: on_message_try_def bindA_eq lift_def)

subsection \<open>The write to the cache\<close>

lemma no_cache_Client_init: "no_cache (Client_init dbg sandbox)"
  by (simp add: no_cache_def Client_init_def EventEmitter_init_def)

lemma no_cache_on: "no_cache w \<Longrightarrow> no_cache (snd (on f w))"
  by (auto simp: no_cache_def on_def thenA_eq record_event_def setattr_def succeed_def throw_def
      split: option.splits pyval.splits)

lemma no_cache_attrs: "attrs w' = attrs w \<Longrightarrow> no_cache w' = no_cache w"
  by (simp add: no_cache_def)

lemma cache_set_no_cache: "no_cache w \<Longrightarrow> cache_set d w = (Inl AttributeError, w)"
  by (auto simp: no_cache_def cache_set_def split: option.splits pyval.splits)

lemma dispatch_cache_write:
  assumes "getitem data ''code'' = Inr c" and "eq_int c k" and "C data = Inr p"
    and "fst (emit name [ArgData p] w) = Inr ()" and "no_cache w"
  shows "fst (dispatch data k C name w) = Inl AttributeError"
proof -
  have "no_cache (snd (emit name [ArgData p] w))"
    using assms(5) by (simp add: no_cache_def)
  then show ?thesis
    using assms(1-4)
    by (simp add: dispatch_def bindA_eq lift_def thenA_eq cache_set_no_cache)
qed

lemma on_message_try_cache_write:
  assumes "no_cache w" and "attrs w ''option'' = Some (PyOptions opt)"
    and "json_loads env message = Some data" and "getitem data ''code'' = Inr c"
    and k: "(k, name, C) \<in> set (known_kinds env)" "eq_int c k" and "C data = Inr p"
    and "fst (emit name [ArgData p] w) = Inr ()"
  shows "fst (on_message_try env message w) = Inl AttributeError"
proof -
  let ?w1 = "snd (debug_message (LogReceived c) w)"
  have e: "fst (emit name [ArgData p] ?w1) = Inr ()"
    using assms(8) by (simp add: emit_fst_attr [of ?w1 name w])
  have n: "no_cache ?w1"
    using assms(1) by (simp add: no_cache_def)
  note d = dispatch_cache_write [where C = C and data = data, OF assms(4) k(2) assms(7) e n]
  from k(1) consider "k = 551" "name = ''earthquake''" "C = EarthquakeReports env"
    | "k = 552" "name = ''tsunami''" "C = Tsunami env"
    | "k = 556" "name = ''eew''" "C = EEW env"
    by (auto simp: known_kinds_def)
  then show ?thesis
  proof cases
    case 1
    then show ?thesis
      using assms(2-4) d
      by (simp add: on_message_try_def bindA_eq lift_def debug_message_fst
          thenA_eq [of "debug_message _"] thenA_eq [of "dispatch _ 551 _ _"])
  next
    case 2
    then have "\<not> eq_int c 551" using k(2) eq_int_inj by fastforce
    then show ?thesis
      using 2 assms(2-4) d
      by (simp add: on_message_try_def bindA_eq lift_def debug_message_fst dispatch_skip
          thenA_eq [of "debug_message _"] thenA_eq [of "dispatch _ 551 _ _"]
          thenA_eq [of "dispatch _ 552 _ _"])
  next
    case 3
    then have "\<not> eq_int c 551" "\<not> eq_int c 552" using k(2) eq_int_inj by fastforce+
    then show ?thesis
      using 3 assms(2-4) d
      by (simp add: on_message_try_def bindA_eq lift_def debug_message_fst dispatch_skip
          thenA_eq [of "debug_message _"] thenA_eq [of "dispatch _ 551 _ _"]
          thenA_eq [of "dispatch _ 552 _ _"])
  qed
qed

lemma no_cache_keeps_attrs:
  assumes "no_cache w"
  shows "attrs (snd (on_message env message w)) = attrs w"
    and "attrs (snd (receive env messages w)) = attrs w"
proof -
  show "attrs (snd (on_message env message w)) = attrs w"
    by (rule invariantD [OF invariant_on_message [OF frame_attrs [OF assms]]]) simp
  show "attrs (snd (receive env messages w)) = attrs w"
    by (rule invariantD [OF invariant_receive [OF frame_attrs [OF assms]]]) simp
qed

subsection \<open>Handlers that raise\<close>




lemma option_intact_attrs:
  "attrs w' ''option'' = attrs w ''option'' \<Longrightarrow> option_intact w' = option_intact w"
  by (simp add: option_intact_def)



subsection \<open>Counting publications\<close>


lemma times_published_handshake [simp]:
  "filter (published_as ''close'') (handshake s) = []"
  "filter (published_as ''error'') (handshake s) = []"
  by (cases s; simp)+

lemma times_published_update [simp]:
  shows "times_published n (w\<lparr>attrs := a\<rparr>) = times_published n w"
    and "times_published n (w\<lparr>connects := c\<rparr>) = times_published n w"
    and "times_published n (w\<lparr>trace := trace w @ evs\<rparr>) =
           times_published n w + length (filter (published_as n) evs)"
  by (simp_all add: times_published_def)

lemma times_published_debug_message [simp]:
  "times_published n (snd (debug_message msg w)) = times_published n w"
  by (auto simp: debug_message_def get_option_def bindA_eq succeed_def record_event_def
      split: option.splits pyval.splits)

lemma times_published_emit [simp]:
  "times_published n (snd (emit name args w)) = times_published n w + (if n = name then 1 else 0)"
proof -
  obtain evs where e: "snd (emit name args w) = w\<lparr>trace := trace w @ Published name args # evs\<rparr>"
    "\<forall>ev \<in> set evs. \<not> is_lifecycle ev \<and> \<not> is_publication ev"
    using emit_snd by blast
  have "\<And>ev. published_as n ev \<Longrightarrow> is_publication ev"
    by (auto elim!: published_as.elims)
  then have "\<And>m. filter (published_as m) evs = []"
    using e(2) by (auto simp: filter_empty_conv elim!: published_as.elims)
  then show ?thesis
    by (simp add: e(1))
qed

lemma on_ready_no_close [simp]:
  "times_published ''close'' (snd (on_ready w)) = times_published ''close'' w"
  by (simp add: on_ready_def thenA_eq bindA_eq setattr_def split: sum.splits)

lemma on_error_no_close [simp]:
  "times_published ''close'' (snd (on_error e w)) = times_published ''close'' w"
  by (simp add: on_error_def thenA_eq bindA_eq split: sum.splits)


lemma receive_no_close [simp]:
  "times_published ''close'' (snd (receive env messages w)) = times_published ''close'' w"
  by (rule invariantD [OF invariant_receive [OF frame_times_published]]) simp_all








subsection \<open>Evaluation on concrete inputs\<close>

lemmas action_defs =
  succeed_def throw_def lift_def bindA_def thenA_def try_except_Exception_def
  record_event_def setattr_def

lemmas emitter_defs = EventEmitter_init_def on_def call_listener_def emit_def

lemmas client_defs =
  Client_init_def get_option_def debug_message_def get_ws_url_def cache_set_def
  on_ready_def on_error_def on_close_def dispatch_def on_message_try_def on_message_def

lemmas example_defs =
  returning_def raising_def frame_of_code_def loads_example_def env_example_def
  client_example_def client_with_def

lemma client_example_attrs:
  "attrs client_example =
     [''_listeners'' \<mapsto> PyDict [], ''ws'' \<mapsto> PyNone, ''isReady'' \<mapsto> PyBool False,
      ''option'' \<mapsto> PyOptions \<lparr>isDebug = True, isSandBox = False\<rparr>,
      ''earthquake'' \<mapsto> PyFunction (returning ''earthquake'' 1)]"
  by (simp add: example_defs emitter_defs client_defs action_defs)

lemma client_example_trace: "trace client_example = [Print (AddingListener ''earthquake'')]"
  by (simp add: example_defs emitter_defs client_defs action_defs)

lemma client_example_well_behaved: "well_behaved client_example"
  by (simp add: well_behaved_def option_intact_def quiet_def client_events_def
      client_example_attrs emit_def call_listener_def returning_def action_defs)

lemma env_example_constructors: "constructors_raise_Exception (env_example s)"
  by (simp add: constructors_raise_Exception_def env_example_def)


lemma client_with_trace:
  "iscoroutinefunction h \<Longrightarrow> trace (client_with h) = [Print (AddingListener (hname h))]"
  by (simp add: client_with_def emitter_defs client_defs action_defs)

lemma client_with_connects: "connects (client_with h) = 0"
  by (simp add: client_with_def emitter_defs client_defs action_defs)

lemma client_example_connects: "connects client_example = 0"
  by (simp add: example_defs emitter_defs client_defs action_defs)

lemma client_example_counts:
  "times_published name client_example = 0" "lifecycle client_example = []"
  "publications client_example = []"
  by (simp_all add: times_published_def lifecycle_def publications_def client_example_trace)

section \<open>Properties\<close>

subsection \<open>EventEmitter: registration and publication\<close>






subsection \<open>Client: the handling of one frame\<close>



text \<open>
  C8. A frame that \<^verbatim>\<open>json.loads\<close> rejects: the \<^verbatim>\<open>try\<close> suite raises the decode error at
  once, and the error goes no further. Handling the frame raises exactly when the raw
  publication did, the raw publication is the only one, the attributes of the client
  and the events of the connection are as before, and the receive loop goes on with
  the next frame.
\<close>

theorem malformed_frame_is_dropped:
  assumes "json_loads env message = None" and "option_intact w"
  shows "on_message_try env message (snd (emit ''rawmessage'' [ArgText message] w)) =
           (Inl JSONDecodeError, snd (emit ''rawmessage'' [ArgText message] w)) \<and>
         fst (on_message env message w) = fst (emit ''rawmessage'' [ArgText message] w) \<and>
         publications (snd (on_message env message w)) =
           publications w @ [Published ''rawmessage'' [ArgText message]] \<and>
         attrs (snd (on_message env message w)) = attrs w \<and>
         lifecycle (snd (on_message env message w)) = lifecycle w \<and>
         (fst (emit ''rawmessage'' [ArgText message] w) = Inr () \<longrightarrow>
            fst (on_message env message w) = Inr () \<and>
            receive env (message # rest) w = receive env rest (snd (on_message env message w)))"
proof -
  let ?w1 = "snd (emit ''rawmessage'' [ArgText message] w)"
  note t = on_message_try_malformed [OF assms(1)]
  have f: "fst (on_message env message w) = fst (emit ''rawmessage'' [ArgText message] w)"
    by (cases "fst (emit ''rawmessage'' [ArgText message] w)")
       (simp_all add: on_message_fst [OF assms(2)] t)
  have a: "attrs (snd (on_message env message w)) = attrs w"
    by (simp add: on_message_def thenA_eq try_eq t split: sum.splits)
  have l: "lifecycle (snd (on_message env message w)) = lifecycle w"
    by (rule invariantD [OF invariant_on_message [OF frame_lifecycle]]) simp
  show ?thesis
    using f a l
    by (simp add: t on_message_publications thenA_eq [of "on_message env message"])
qed

theorem malformed_frame_is_dropped_witness:
  "json_loads (env_example (Session [] None)) ''{not json'' = None \<and>
   option_intact client_example \<and>
   fst (on_message (env_example (Session [] None)) ''{not json'' client_example) = Inr () \<and>
   publications (snd (on_message (env_example (Session [] None)) ''{not json'' client_example)) =
     [Published ''rawmessage'' [ArgText ''{not json'']]"
proof -
  have h: "json_loads (env_example (Session [] None)) ''{not json'' = None"
    "option_intact client_example"
    "fst (emit ''rawmessage'' [ArgText ''{not json''] client_example) = Inr ()"
    "publications client_example = []"
    by (simp_all add: emit_def action_defs client_example_attrs client_example_trace
        option_intact_def env_example_def loads_example_def frame_of_code_def publications_def)
  show ?thesis
    using h malformed_frame_is_dropped [OF h(1) h(2), of "[]"]
    by simp
qed

text \<open>
  C9. The constructor of the client creates no attribute \<^verbatim>\<open>cache\<close>, and registering
  handlers creates no cache either. On a client without a cache object, a frame of a
  known kind whose message class can be built, and whose typed handler returns, makes
  the \<^verbatim>\<open>try\<close> suite raise \<^verbatim>\<open>AttributeError\<close> after the typed publication; the error
  does not leave \<^verbatim>\<open>__on_message\<close>, which raises exactly when the raw publication did.
  No frame and no sequence of frames changes any attribute of such a client: nothing is
  ever stored.
\<close>

theorem cache_write_raises_and_is_caught:
  "no_cache (Client_init dbg sandbox) \<and>
   (no_cache w \<longrightarrow> no_cache (snd (on f w))) \<and>
   (no_cache w \<longrightarrow>
      attrs (snd (on_message env message w)) = attrs w \<and>
      attrs (snd (receive env messages w)) = attrs w) \<and>
   (no_cache w \<and> option_intact w \<and>
    json_loads env message = Some data \<and> getitem data ''code'' = Inr c \<and>
    (k, name, C) \<in> set (known_kinds env) \<and> eq_int c k \<and> C data = Inr p \<and>
    fst (emit name [ArgData p] w) = Inr () \<longrightarrow>
      fst (on_message_try env message (snd (emit ''rawmessage'' [ArgText message] w))) =
        Inl AttributeError \<and>
      publications (snd (on_message_try env message
          (snd (emit ''rawmessage'' [ArgText message] w)))) =
        publications w @
          [Published ''rawmessage'' [ArgText message], Published name [ArgData p]] \<and>
      fst (on_message env message w) = fst (emit ''rawmessage'' [ArgText message] w))"
proof (intro conjI impI; (elim conjE)?)
  show "no_cache (Client_init dbg sandbox)"
    by (rule no_cache_Client_init)
  show "no_cache w \<Longrightarrow> no_cache (snd (on f w))"
    by (rule no_cache_on)
  show "no_cache w \<Longrightarrow> attrs (snd (on_message env message w)) = attrs w"
    by (rule no_cache_keeps_attrs)
  show "no_cache w \<Longrightarrow> attrs (snd (receive env messages w)) = attrs w"
    by (rule no_cache_keeps_attrs)
next
  let ?w1 = "snd (emit ''rawmessage'' [ArgText message] w)"
  assume n: "no_cache w" and o: "option_intact w"
    and data: "json_loads env message = Some data" and c: "getitem data ''code'' = Inr c"
    and k: "(k, name, C) \<in> set (known_kinds env)" "eq_int c k" and p: "C data = Inr p"
    and e: "fst (emit name [ArgData p] w) = Inr ()"
  obtain opt where opt: "attrs ?w1 ''option'' = Some (PyOptions opt)"
    using o by (auto simp: option_intact_def)
  have n1: "no_cache ?w1"
    using n by (simp add: no_cache_def)
  have e1: "fst (emit name [ArgData p] ?w1) = Inr ()"
    using e by (simp add: emit_fst_attr [of ?w1 name w])
  show t: "fst (on_message_try env message ?w1) = Inl AttributeError"
    by (rule on_message_try_cache_write [OF n1 opt data c k p e1])
  have d: "fst (debug_message (LogReceived c) ?w1) = Inr ()"
    by (rule debug_message_fst [OF opt])
  from k(1) consider "k = 551" "name = ''earthquake''" "C = EarthquakeReports env"
    | "k = 552" "name = ''tsunami''" "C = Tsunami env"
    | "k = 556" "name = ''eew''" "C = EEW env"
    by (auto simp: known_kinds_def)
  then show "publications (snd (on_message_try env message ?w1)) =
      publications w @ [Published ''rawmessage'' [ArgText message], Published name [ArgData p]]"
  proof cases
    case 1
    then show ?thesis
      using data c k(2) p d by (simp add: on_message_try_publications)
  next
    case 2
    then have "\<not> eq_int c 551" using k(2) eq_int_inj by fastforce
    then show ?thesis
      using 2 data c k(2) p d by (simp add: on_message_try_publications)
  next
    case 3
    then have "\<not> eq_int c 551" "\<not> eq_int c 552" using k(2) eq_int_inj by fastforce+
    then show ?thesis
      using 3 data c k(2) p d by (simp add: on_message_try_publications)
  qed
  show "fst (on_message env message w) = fst (emit ''rawmessage'' [ArgText message] w)"
    by (cases "fst (emit ''rawmessage'' [ArgText message] w)")
       (simp_all add: on_message_fst [OF o] t)
qed

theorem cache_write_raises_and_is_caught_witness:
  "no_cache client_example \<and> option_intact client_example \<and>
   json_loads (env_example (Session [] None)) (frame_of_code ''551'') =
     Some (JObject [(''code'', JInt 551)]) \<and>
   fst (emit ''earthquake'' [ArgData (Payload ''a1'' (JObject [(''code'', JInt 551)]))]
     client_example) = Inr () \<and>
   fst (on_message_try (env_example (Session [] None)) (frame_of_code ''551'')
     (snd (emit ''rawmessage'' [ArgText (frame_of_code ''551'')] client_example))) =
     Inl AttributeError \<and>
   fst (on_message (env_example (Session [] None)) (frame_of_code ''551'') client_example) =
     Inr () \<and>
   attrs (snd (on_message (env_example (Session [] None)) (frame_of_code ''551'')
     client_example)) ''cache'' = None"
proof -
  have h: "no_cache client_example" "option_intact client_example"
    "json_loads (env_example (Session [] None)) (frame_of_code ''551'') =
       Some (JObject [(''code'', JInt 551)])"
    "getitem (JObject [(''code'', JInt 551)]) ''code'' = Inr (JInt 551)"
    "(551, ''earthquake'', EarthquakeReports (env_example (Session [] None)))
       \<in> set (known_kinds (env_example (Session [] None)))"
    "eq_int (JInt 551) 551"
    "EarthquakeReports (env_example (Session [] None)) (JObject [(''code'', JInt 551)]) =
       Inr (Payload ''a1'' (JObject [(''code'', JInt 551)]))"
    "fst (emit ''earthquake'' [ArgData (Payload ''a1'' (JObject [(''code'', JInt 551)]))]
       client_example) = Inr ()"
    "fst (emit ''rawmessage'' [ArgText (frame_of_code ''551'')] client_example) = Inr ()"
    "attrs client_example ''cache'' = None"
    by (simp_all add: emit_def call_listener_def action_defs client_example_attrs
        client_example_trace option_intact_def no_cache_def env_example_def loads_example_def
        known_kinds_def returning_def)
  show ?thesis
    using h cache_write_raises_and_is_caught [of True False client_example
        "returning ''earthquake'' 1" "env_example (Session [] None)" "frame_of_code ''551''" "[]"
        "JObject [(''code'', JInt 551)]" "JInt 551" 551 "''earthquake''"
        "EarthquakeReports (env_example (Session [] None))"
        "Payload ''a1'' (JObject [(''code'', JInt 551)])"]
    by simp
qed

subsection \<open>Client: handlers that raise\<close>




subsection \<open>Client: one session\<close>





subsection \<open>Client: the reconnect loop\<close>

text \<open>
  C4. When a turn of the loop logs its attempt and its session ends by the \<^verbatim>\<open>break\<close>
  (a normal close), the loop returns there, with \<^verbatim>\<open>retries\<close> as it was. On a
  well-behaved client, an attempt that the transport closes normally ends the loop
  whatever \<^verbatim>\<open>max_retries\<close> and \<^verbatim>\<open>retries\<close> are: one connection, \<^verbatim>\<open>ready\<close>, \<^verbatim>\<open>close\<close>, no
  sleep and no further attempt.
\<close>

theorem normal_close_stops_loop:
  "(fst (debug_message (LogConnecting uri (retries + 1)) w) = Inr () \<and>
    fst (session env uri (snd (debug_message (LogConnecting uri (retries + 1)) w))) =
      Inr NormalClose \<longrightarrow>
      start_loop env max_retries retry_interval uri retries w =
        Some (Inr retries,
              snd (session env uri (snd (debug_message (LogConnecting uri (retries + 1)) w))))) \<and>
   (well_behaved w \<and> constructors_raise_Exception env \<and>
    transport env (connects w) = Session messages None \<longrightarrow>
      (\<exists>w'. start_loop env max_retries retry_interval uri retries w = Some (Inr retries, w') \<and>
         lifecycle w' =
           lifecycle w @ [Connect uri, Published ''ready'' [], Published ''close'' []] \<and>
         attempts w' = attempts w @ [Connect uri]))"
proof (intro conjI impI; (elim conjE)?)
  assume "fst (debug_message (LogConnecting uri (retries + 1)) w) = Inr ()"
    "fst (session env uri (snd (debug_message (LogConnecting uri (retries + 1)) w))) =
      Inr NormalClose"
  then have "iteration env max_retries retry_interval uri retries w =
    (Inr (Stop retries),
     snd (session env uri (snd (debug_message (LogConnecting uri (retries + 1)) w))))"
    by (simp add: iteration_def thenA_eq bindA_eq succeed_def)
  then show "start_loop env max_retries retry_interval uri retries w =
      Some (Inr retries,
            snd (session env uri (snd (debug_message (LogConnecting uri (retries + 1)) w))))"
    by (subst start_loop_eq) simp
next
  assume wb: "well_behaved w" and env: "constructors_raise_Exception env"
    and script: "transport env (connects w) = Session messages None"
  have r: "session_reason (transport env (connects w)) = Inr NormalClose"
    using script by (simp add: session_reason_def)
  then have g: "\<not> goes_on max_retries retries (transport env (connects w))"
    by (simp add: goes_on_def)
  note i = iteration_effect [OF wb env, of max_retries retry_interval uri retries]
  have "fst (iteration env max_retries retry_interval uri retries w) = Inr (Stop retries)"
    using i r by simp
  then have "start_loop env max_retries retry_interval uri retries w =
    Some (Inr retries, snd (iteration env max_retries retry_interval uri retries w))"
    by (subst start_loop_eq) simp
  moreover have "lifecycle (snd (iteration env max_retries retry_interval uri retries w)) =
      lifecycle w @ [Connect uri, Published ''ready'' [], Published ''close'' []]"
    using i r g script by (simp add: closing_def)
  ultimately show "\<exists>w'. start_loop env max_retries retry_interval uri retries w =
      Some (Inr retries, w') \<and>
      lifecycle w' = lifecycle w @ [Connect uri, Published ''ready'' [], Published ''close'' []] \<and>
      attempts w' = attempts w @ [Connect uri]"
    by (simp add: attempts_def)
qed

theorem normal_close_stops_loop_witness:
  "well_behaved client_example \<and>
   constructors_raise_Exception (env_example (Session [frame_of_code ''551''] None)) \<and>
   fst (debug_message (LogConnecting ''wss://api.p2pquake.net/v2/ws'' (0 + 1)) client_example) =
     Inr () \<and>
   (\<exists>w'. start_loop (env_example (Session [frame_of_code ''551''] None)) (Some 10) 5
       ''wss://api.p2pquake.net/v2/ws'' 0 client_example = Some (Inr 0, w') \<and>
      lifecycle w' =
        [Connect ''wss://api.p2pquake.net/v2/ws'', Published ''ready'' [],
         Published ''close'' []])"
proof -
  have h: "transport (env_example (Session [frame_of_code ''551''] None))
      (connects client_example) = Session [frame_of_code ''551''] None"
    by (simp add: env_example_def)
  have d: "fst (debug_message (LogConnecting ''wss://api.p2pquake.net/v2/ws'' (0 + 1))
      client_example) = Inr ()"
    by (rule well_behaved_fst_debug [OF client_example_well_behaved])
  show ?thesis
    using h d client_example_well_behaved env_example_constructors
      normal_close_stops_loop [of "''wss://api.p2pquake.net/v2/ws''" 0 client_example
        "env_example (Session [frame_of_code ''551''] None)" "Some 10" 5 "[frame_of_code ''551'']"]
    by (auto simp: client_example_counts attempts_def)
qed




end
